theory Spec2Isabelle
  imports Main "HOL-Library.Sublist"
begin

section \<open>JavaScript values\<close>

text \<open>
  The values that flow through the authorization code: session entries, configuration
  entries parsed from JSON, the arguments of \<open>hasGroup\<close>. \<open>JObj\<close> is an object that
  is not an Array (the request object, a parsed JSON object); \<open>JFun n\<close> is the built-in
  function named \<open>n\<close> that every plain object inherits from \<open>Object.prototype\<close>.
  Numbers are integers here: only being zero and strict equality are ever observed.
\<close>

datatype jsval =
    JUndefined
  | JNull
  | JBool bool
  | JNum int
  | JStr string
  | JArr "jsval list"
  | JObj
  | JFun string

text \<open>What a rejected promise or a thrown exception carries.\<close>

datatype err = Msg string | TypeError string

text \<open>\<open>String(err)\<close>, as \<open>_rejectResponse\<close> puts it into the JSON envelope.\<close>

fun String_of :: "err \<Rightarrow> string" where
  "String_of (Msg s) = s"
| "String_of (TypeError m) = ''TypeError: '' @ m"

text \<open>Truthiness, as \<open>if ( v )\<close>, \<open>v || []\<close> and \<open>v && w\<close> test it.\<close>

fun truthy :: "jsval \<Rightarrow> bool" where
  "truthy JUndefined = False"
| "truthy JNull = False"
| "truthy (JBool b) = b"
| "truthy (JNum n) = (n \<noteq> 0)"
| "truthy (JStr s) = (s \<noteq> [])"
| "truthy (JArr xs) = True"
| "truthy JObj = True"
| "truthy (JFun n) = True"

text \<open>
  \<open>===\<close> as \<open>Array.prototype.indexOf\<close> applies it: primitives are compared by value,
  objects (arrays, functions) by identity. The arrays compared here come from two
  different sources (the session and the configuration), so they are never identical.
\<close>

fun strict_eq :: "jsval \<Rightarrow> jsval \<Rightarrow> bool" where
  "strict_eq JUndefined JUndefined = True"
| "strict_eq JNull JNull = True"
| "strict_eq (JBool a) (JBool b) = (a = b)"
| "strict_eq (JNum a) (JNum b) = (a = b)"
| "strict_eq (JStr a) (JStr b) = (a = b)"
| "strict_eq _ _ = False"

fun digits :: "nat \<Rightarrow> string" where
  "digits n = (if n < 10 then [char_of (48 + n)]
               else digits (n div 10) @ [char_of (48 + n mod 10)])"

fun join_comma :: "string list \<Rightarrow> string" where
  "join_comma [] = []"
| "join_comma [s] = s"
| "join_comma (s # t # ss) = s @ '','' @ join_comma (t # ss)"

text \<open>
  \<open>ToString\<close>, which \<open>String.prototype.indexOf\<close> applies to its argument. An array is
  joined with commas, \<open>null\<close> and \<open>undefined\<close> elements giving the empty string.
\<close>

fun ToString :: "jsval \<Rightarrow> string" where
  "ToString JUndefined = ''undefined''"
| "ToString JNull = ''null''"
| "ToString (JBool b) = (if b then ''true'' else ''false'')"
| "ToString (JNum n) = (if n < 0 then CHR ''-'' # digits (nat (- n)) else digits (nat n))"
| "ToString (JStr s) = s"
| "ToString (JArr xs) =
     join_comma (map (\<lambda>x. if x = JUndefined \<or> x = JNull then [] else ToString x) xs)"
| "ToString JObj = ''[object Object]''"
| "ToString (JFun n) = ''function '' @ n @ ''() { [native code] }''"

text \<open>
  \<open>v.indexOf\<close> exists on arrays and on strings only; on any other value the call
  \<open>v.indexOf(x)\<close> throws a TypeError.
\<close>

fun has_indexOf :: "jsval \<Rightarrow> bool" where
  "has_indexOf (JArr xs) = True"
| "has_indexOf (JStr s) = True"
| "has_indexOf _ = False"

text \<open>
  \<open>v.indexOf(x) !== -1\<close>: on an array, some element is strictly equal to \<open>x\<close>; on a
  string, \<open>ToString(x)\<close> occurs in it.
\<close>

fun indexOf_found :: "jsval \<Rightarrow> jsval \<Rightarrow> bool" where
  "indexOf_found (JArr xs) x = list_ex (\<lambda>y. strict_eq y x) xs"
| "indexOf_found (JStr s) x = sublist (ToString x) s"
| "indexOf_found _ x = False"

text \<open>
  A property read \<open>obj[k]\<close> on a plain object (\<open>{}\<close>, or an object parsed from JSON):
  the object's own entry if it has one, else what \<open>Object.prototype\<close> provides.
\<close>

definition object_prototype_functions :: "string list" where
  "object_prototype_functions =
     [''constructor'', ''hasOwnProperty'', ''isPrototypeOf'', ''propertyIsEnumerable'',
      ''toLocaleString'', ''toString'', ''valueOf'', ''__defineGetter__'',
      ''__defineSetter__'', ''__lookupGetter__'', ''__lookupSetter__'']"

definition obj_get :: "(string \<rightharpoonup> jsval) \<Rightarrow> string \<Rightarrow> jsval" where
  "obj_get obj k =
     (case obj k of
        Some v \<Rightarrow> v
      | None \<Rightarrow>
          if k \<in> set object_prototype_functions then JFun k
          else if k = ''__proto__'' then JObj
          else JUndefined)"

section \<open>Sessions and group membership\<close>

text \<open>
  What \<open>http.session.get('groups')\<close> holds, seen through \<open>JSON.parse\<close>: nothing
  (\<open>JSON.parse(undefined)\<close> throws), a text that is not JSON (it throws as well), or a
  text that parses to a value.
\<close>

datatype stored_groups = NoGroups | BadJson | Json jsval

record session =
  username :: jsval
  groups :: stored_groups

text \<open>
  \<open>hasGroup(http, groupList, all)\<close> of \<open>lib/auth.js\<close>. Its first argument is read only
  as \<open>http.session\<close>, inside the \<open>try\<close> block: \<open>None\<close> stands for an argument with no
  session (the read throws and is caught, leaving \<open>userGroups = []\<close>).
\<close>

definition hasGroup :: "session option \<Rightarrow> jsval \<Rightarrow> jsval \<Rightarrow> err + bool" where
  "hasGroup sess groupList all =
     (case groupList of
        JArr gl \<Rightarrow>
          if gl = [] then Inr True
          else
            let userGroups =
              (case sess of
                 None \<Rightarrow> JArr []
               | Some s \<Rightarrow>
                   (case groups s of
                      Json v \<Rightarrow> if truthy v then v else JArr []
                    | _ \<Rightarrow> JArr []))
            in
              if \<not> has_indexOf userGroups
                then Inl (TypeError ''userGroups.indexOf is not a function'')
              else if indexOf_found userGroups (JStr ''admin'') then Inr True
              else if all = JUndefined \<or> truthy all
                then Inr (list_all (\<lambda>name. indexOf_found userGroups name) gl)
              else Inr (list_ex (\<lambda>name. indexOf_found userGroups name) gl)
      | _ \<Rightarrow> Inr True)"

section \<open>Requests, responses and promises\<close>

text \<open>
  The argument object handed to the VFS layer: the request's own data, or the object
  \<open>{path: ...}\<close> that the \<open>get/\<close> route builds.
\<close>

datatype 'd vfs_args = RequestData 'd | PathOnly string

record 'd http =
  request_method :: string
  isfs :: bool
  isapi :: bool
  endpoint :: string
  path :: string
  data :: 'd
  session :: session

text \<open>The \<open>options\<close> object of a permission check; an absent property is \<open>None\<close>.\<close>

record 'd options =
  opt_method :: "string option"
  opt_args :: "'d vfs_args option"
  opt_path :: "string option"

text \<open>
  The three option objects the dispatcher builds: \<open>{method, args}\<close> for a VFS call,
  \<open>{method}\<close> for an API call, \<open>{path}\<close> for a package file.
\<close>

definition fs_options :: "string \<Rightarrow> 'd vfs_args \<Rightarrow> 'd options" where
  "fs_options m a = \<lparr> opt_method = Some m, opt_args = Some a, opt_path = None \<rparr>"

definition api_options :: "string \<Rightarrow> 'd options" where
  "api_options m = \<lparr> opt_method = Some m, opt_args = None, opt_path = None \<rparr>"

definition package_options :: "string \<Rightarrow> 'd options" where
  "package_options p = \<lparr> opt_method = None, opt_args = None, opt_path = Some p \<rparr>"

text \<open>
  A promise, by how it ends: resolved with a value, rejected with an error, or never
  settled. An exception thrown inside an executor or a \<open>then\<close> callback is a rejection.
\<close>

datatype 'a outcome = Resolved 'a | Rejected err | Pending

text \<open>
  The three shapes of the response sink: \<open>respond.error(err, code)\<close>,
  \<open>respond.json({error, result}, code)\<close> and \<open>respond.file(path)\<close>, the path being the
  join of the root directory, the distribution name and the request path.
\<close>

datatype 'r result_field = NoResult | ResultFalse | Result 'r

datatype 'r response =
    RespondError err nat
  | RespondJson "string option" "'r result_field" "nat option"
  | RespondFile string string string

text \<open>
  What a request does, in order: each check that runs (with whether it passed), each
  call into the storage, the VFS layer or an API handler, each response sent.
\<close>

datatype stage = SessionCheck | ApiCheck | MountCheck | PackageCheck

datatype ('d, 'r) event =
    Check stage bool
  | GetBlacklist jsval
  | VfsRequest string "'d vfs_args"
  | ApiCall string 'd
  | Respond "'r response"

text \<open>
  \<open>p.then(f)\<close> and \<open>p.catch(h)\<close> on a promise together with the events that lead to
  its outcome.
\<close>

definition then_p :: "'e list \<times> 'a outcome \<Rightarrow> ('a \<Rightarrow> 'e list \<times> 'b outcome) \<Rightarrow> 'e list \<times> 'b outcome" where
  "then_p p f =
     (case snd p of
        Resolved v \<Rightarrow> (fst p @ fst (f v), snd (f v))
      | Rejected e \<Rightarrow> (fst p, Rejected e)
      | Pending \<Rightarrow> (fst p, Pending))"

definition catch_p :: "'e list \<times> 'a outcome \<Rightarrow> (err \<Rightarrow> 'e list \<times> 'a outcome) \<Rightarrow> 'e list \<times> 'a outcome" where
  "catch_p p h =
     (case snd p of
        Rejected e \<Rightarrow> (fst p @ fst (h e), snd (h e))
      | Resolved v \<Rightarrow> p
      | Pending \<Rightarrow> p)"

section \<open>The instance and its collaborators\<close>

record 'd authenticator =
  auth_initSession :: "'d http \<Rightarrow> jsval outcome"
  auth_checkSession :: "'d http \<Rightarrow> unit outcome"
  auth_checkPermission :: "'d http \<Rightarrow> string \<Rightarrow> 'd options \<Rightarrow> jsval outcome"

text \<open>
  An entry of \<open>CONFIG.vfs.mounts\<close>: a plain path string, or an object whose
  \<open>enabled\<close> and \<open>ro\<close> properties the mount check reads.
\<close>

record mount_entry =
  enabled :: jsval
  ro :: jsval

datatype mount = MountString string | MountObject mount_entry

record config =
  api_groups :: "string \<rightharpoonup> jsval"
  vfs_mounts :: "string \<rightharpoonup> mount"
  vfs_groups :: "string \<rightharpoonup> jsval"

text \<open>
  The instance descriptor, with the modules it is used with. \<open>vfs_parseVirtualPath\<close>
  and \<open>vfs_request\<close> are \<open>parseVirtualPath\<close> and \<open>request\<close> of \<open>lib/vfs.js\<close>
  (the first gives the protocol of the parsed path, or throws), \<open>storage_getBlacklist\<close>
  is \<open>getBlacklist\<close> of the storage module; they are parameters of the model. \<open>API\<close>
  holds the registered methods, the own properties of \<open>instance.API\<close>.
\<close>

record ('d, 'r) server_instance =
  AUTH :: "'d authenticator"
  API :: "string \<rightharpoonup> ('d http \<Rightarrow> 'd \<Rightarrow> 'r outcome)"
  CONFIG :: config
  DIRS_root :: string
  DIST :: string
  storage_getBlacklist :: "jsval \<Rightarrow> jsval outcome"
  vfs_parseVirtualPath :: "'d vfs_args option \<Rightarrow> 'd http \<Rightarrow> err + string"
  vfs_request :: "'d http \<Rightarrow> string \<Rightarrow> 'd vfs_args \<Rightarrow> 'r outcome"

subsection \<open>The authenticator of \<open>modules/auth/mysql.js\<close>\<close>

definition mysql_initSession :: "'d http \<Rightarrow> jsval outcome" where
  "mysql_initSession http = Resolved (JBool True)"

definition mysql_checkPermission :: "'d http \<Rightarrow> string \<Rightarrow> 'd options \<Rightarrow> jsval outcome" where
  "mysql_checkPermission http type options = Resolved (JBool True)"

definition mysql_checkSession :: "'d http \<Rightarrow> unit outcome" where
  "mysql_checkSession http =
     (if truthy (username (session http)) then Resolved ()
      else Rejected (Msg ''You have no OS.js Session, please log in!''))"

definition mysql :: "'d authenticator" where
  "mysql = \<lparr> auth_initSession = mysql_initSession,
             auth_checkSession = mysql_checkSession,
             auth_checkPermission = mysql_checkPermission \<rparr>"

section \<open>The authorization checks of \<open>lib/auth.js\<close>\<close>

definition initSession :: "('d, 'r) server_instance \<Rightarrow> 'd http \<Rightarrow> ('d, 'r) event list \<times> jsval outcome" where
  "initSession inst http = ([], auth_initSession (AUTH inst) http)"

definition checkSession :: "('d, 'r) server_instance \<Rightarrow> 'd http \<Rightarrow> ('d, 'r) event list \<times> unit outcome" where
  "checkSession inst http =
     (let r = auth_checkSession (AUTH inst) http
      in ([Check SessionCheck (r = Resolved ())], r))"

definition checkApiPermission ::
  "('d, 'r) server_instance \<Rightarrow> 'd http \<Rightarrow> string \<Rightarrow> 'd options \<Rightarrow> ('d, 'r) event list \<times> unit outcome" where
  "checkApiPermission inst http type options =
     (let groups = api_groups (CONFIG inst);
          checks =
            (if type = ''fs'' then [JStr type]
             else (case opt_method options of
                     Some m \<Rightarrow>
                       if m \<noteq> [] \<and> obj_get groups m \<noteq> JUndefined then [obj_get groups m]
                       else []
                   | None \<Rightarrow> []))
      in case hasGroup (Some (session http)) (JArr checks) JUndefined of
           Inr True \<Rightarrow> ([Check ApiCheck True], Resolved ())
         | Inr False \<Rightarrow> ([Check ApiCheck False], Rejected (Msg ''Access denied!''))
         | Inl e \<Rightarrow> ([Check ApiCheck False], Rejected e))"

definition writeableMap :: "string list" where
  "writeableMap = [''upload'', ''write'', ''delete'', ''copy'', ''move'', ''mkdir'']"

text \<open>
  The inner \<open>_check\<close> of \<open>checkMountPermission\<close>. A protocol that is no own key of the
  mount table reads as a function or as \<open>Object.prototype\<close>: neither has
  \<open>enabled === false\<close> or \<open>ro === true\<close>. The group test is the call
  \<open>hasGroup(instance, http, groups[parsed.protocol])\<close> as the source writes it: the
  instance (which has no session) as first argument, the request object as group list.
\<close>

definition checkMount_check :: "('d, 'r) server_instance \<Rightarrow> 'd http \<Rightarrow> 'd options \<Rightarrow> err + bool" where
  "checkMount_check inst http options =
     (case vfs_parseVirtualPath inst (opt_args options) http of
        Inl e \<Rightarrow> Inl e
      | Inr protocol \<Rightarrow>
          let mount = vfs_mounts (CONFIG inst) protocol;
              groups = vfs_groups (CONFIG inst)
          in
            if (case mount of
                  Some (MountObject m) \<Rightarrow>
                    enabled m = JBool False \<or>
                    (ro m = JBool True \<and>
                     (case opt_method options of
                        Some meth \<Rightarrow> meth \<in> set writeableMap
                      | None \<Rightarrow> False))
                | _ \<Rightarrow> False)
              then Inr False
            else if truthy (obj_get groups protocol) then
              (case hasGroup None JObj (obj_get groups protocol) of
                 Inl e \<Rightarrow> Inl e
               | Inr b \<Rightarrow> if \<not> b then Inr False else Inr True)
            else Inr True)"

definition checkMountPermission ::
  "('d, 'r) server_instance \<Rightarrow> 'd http \<Rightarrow> string \<Rightarrow> 'd options \<Rightarrow> ('d, 'r) event list \<times> unit outcome" where
  "checkMountPermission inst http type options =
     (if type = ''fs'' then
        (case checkMount_check inst http options of
           Inr True \<Rightarrow> ([Check MountCheck True], Resolved ())
         | Inr False \<Rightarrow> ([Check MountCheck False], Rejected (Msg ''Access Denied!''))
         | Inl e \<Rightarrow> ([Check MountCheck False], Rejected e))
      else ([Check MountCheck True], Resolved ()))"

text \<open>
  The blacklist test runs in a \<open>then\<close> callback whose \<open>catch\<close> rejects with
  \<open>'Access Denied!'\<close>: a rejected query and a blacklist without \<open>indexOf\<close> both end there.
\<close>

definition checkPackagePermission ::
  "('d, 'r) server_instance \<Rightarrow> 'd http \<Rightarrow> string \<Rightarrow> 'd options \<Rightarrow> ('d, 'r) event list \<times> unit outcome" where
  "checkPackagePermission inst http type options =
     (if type = ''package'' then
        (let user = username (session http);
             listed = (\<lambda>blacklist.
               truthy blacklist \<and>
               (\<not> has_indexOf blacklist \<or>
                indexOf_found blacklist
                  (case opt_path options of Some p \<Rightarrow> JStr p | None \<Rightarrow> JUndefined)))
         in case storage_getBlacklist inst user of
              Resolved blacklist \<Rightarrow>
                if listed blacklist
                  then ([Check PackageCheck False, GetBlacklist user], Rejected (Msg ''Access Denied!''))
                else ([Check PackageCheck True, GetBlacklist user], Resolved ())
            | Rejected e \<Rightarrow>
                ([Check PackageCheck False, GetBlacklist user], Rejected (Msg ''Access Denied!''))
            | Pending \<Rightarrow> ([Check PackageCheck False, GetBlacklist user], Pending))
      else ([Check PackageCheck True], Resolved ()))"

definition checkPermission ::
  "('d, 'r) server_instance \<Rightarrow> 'd http \<Rightarrow> string \<Rightarrow> 'd options \<Rightarrow> ('d, 'r) event list \<times> unit outcome" where
  "checkPermission inst http type options =
     then_p ([], auth_checkPermission (AUTH inst) http type options)
       (\<lambda>checkGroups.
          if truthy (if checkGroups = JUndefined then JBool True else checkGroups) then
            then_p (checkApiPermission inst http type options)
              (\<lambda>_. then_p (checkMountPermission inst http type options)
                 (\<lambda>_. checkPackagePermission inst http type options))
          else ([], Resolved ()))"

section \<open>The request dispatcher of \<open>lib/instance.js\<close>\<close>

text \<open>
  \<open>_rejectResponse\<close>: the response it sends for an error (always with status 403), and
  the function itself.
\<close>

definition reject_with :: "'d http \<Rightarrow> err \<Rightarrow> 'r response" where
  "reject_with http e =
     (if \<not> isfs http \<and> \<not> isapi http then RespondError e 403
      else RespondJson (Some (String_of e)) ResultFalse (Some 403))"

definition rejectResponse :: "'d http \<Rightarrow> err \<Rightarrow> ('d, 'r) event list" where
  "rejectResponse http e = [Respond (reject_with http e)]"

definition resolveResponse :: "'r \<Rightarrow> ('d, 'r) event list" where
  "resolveResponse result = [Respond (RespondJson None (Result result) None)]"

text \<open>
  \<open>_checkPermission\<close>. Inside each executor the check's promise is chained as
  \<open>.then(resolve).catch(_rejectResponse)\<close>: a rejection sends the response and calls
  neither \<open>resolve\<close> nor \<open>reject\<close>, so the new promise stays pending.
\<close>

definition request_checkPermission ::
  "('d, 'r) server_instance \<Rightarrow> 'd http \<Rightarrow> string \<Rightarrow> 'd options \<Rightarrow> ('d, 'r) event list \<times> unit outcome" where
  "request_checkPermission inst http type options =
     (let skip = (type = ''api'' \<and> opt_method options = Some ''login'')
      in catch_p
           (then_p
              (if skip then ([], Resolved ())
               else catch_p (checkSession inst http) (\<lambda>e. (rejectResponse http e, Pending)))
              (\<lambda>_. if skip then ([], Resolved ())
                   else catch_p (checkPermission inst http type options)
                          (\<lambda>e. (rejectResponse http e, Pending))))
           (\<lambda>e. (rejectResponse http e, Resolved ())))"

text \<open>\<open>s.replace(/(^get\/)?/, '')\<close>: a leading \<open>get/\<close> is removed.\<close>

definition strip_get :: "string \<Rightarrow> string" where
  "strip_get s = (if prefix ''get/'' s then drop 4 s else s)"

definition request_vfsCall :: "('d, 'r) server_instance \<Rightarrow> 'd http \<Rightarrow> ('d, 'r) event list" where
  "request_vfsCall inst http =
     (let method = (if prefix ''get/'' (endpoint http) then ''read'' else strip_get (endpoint http));
          args = (if prefix ''get/'' (endpoint http) then PathOnly (strip_get (endpoint http))
                  else RequestData (data http))
      in fst (catch_p
           (then_p
              (request_checkPermission inst http ''fs'' (fs_options method args))
              (\<lambda>_. (fst (catch_p
                           (then_p ([VfsRequest method args], vfs_request inst http method args)
                              (\<lambda>result. (resolveResponse result, Resolved ())))
                           (\<lambda>e. (rejectResponse http e, Resolved ()))),
                    Resolved ())))
           (\<lambda>e. (rejectResponse http e, Resolved ()))))"

text \<open>
  \<open>typeof instance.API[k] === 'function'\<close>: \<open>instance.API\<close> is a plain object, so the
  test holds for a registered method and for a function inherited from
  \<open>Object.prototype\<close>.
\<close>

definition api_is_function :: "('d, 'r) server_instance \<Rightarrow> string \<Rightarrow> bool" where
  "api_is_function inst k = (API inst k \<noteq> None \<or> k \<in> set object_prototype_functions)"

text \<open>
  \<open>_apiCall\<close>. Where the endpoint is no registered method, what \<open>instance.API[k](...)\<close>
  returns is no promise, and calling \<open>.then\<close> on it throws inside the callback (no
  registered method is taken to be named \<open>then\<close>).
\<close>

definition request_apiCall :: "('d, 'r) server_instance \<Rightarrow> 'd http \<Rightarrow> ('d, 'r) event list" where
  "request_apiCall inst http =
     fst (catch_p
       (then_p
          (request_checkPermission inst http ''api'' (api_options (endpoint http)))
          (\<lambda>_. case API inst (endpoint http) of
                 Some handler \<Rightarrow>
                   (fst (catch_p
                      (then_p ([ApiCall (endpoint http) (data http)], handler http (data http))
                         (\<lambda>result. (resolveResponse result, Resolved ())))
                      (\<lambda>e. (rejectResponse http e, Resolved ()))),
                    Resolved ())
               | None \<Rightarrow>
                   ([], Rejected (TypeError ''instance.API[http.endpoint](...).then is not a function''))))
       (\<lambda>e. (rejectResponse http e, Resolved ())))"

text \<open>
  \<open>path.match(/^\/?packages\/(.*\/.*)\/(.*)/)\<close>: after an optional leading slash and
  \<open>packages/\<close>, the rest of the line must hold two slashes at least; the first group
  is everything before the last slash, the second what follows it. A dot matches
  no line terminator, so only the first line is looked at.
\<close>

definition pmatch :: "string \<Rightarrow> (string \<times> string) option" where
  "pmatch p =
     (let s = (if prefix ''/'' p then tl p else p)
      in if prefix ''packages/'' s then
           (let line = takeWhile (\<lambda>c. c \<noteq> CHR 0x0A \<and> c \<noteq> CHR 0x0D) (drop 9 s);
                file = rev (takeWhile (\<lambda>c. c \<noteq> CHR ''/'') (rev line));
                name = take (length line - length file - 1) line
            in if CHR ''/'' \<in> set line \<and> CHR ''/'' \<in> set name then Some (name, file)
               else None)
         else None)"

definition request_staticResponse :: "('d, 'r) server_instance \<Rightarrow> 'd http \<Rightarrow> ('d, 'r) event list" where
  "request_staticResponse inst http =
     (let serve = [Respond (RespondFile (DIRS_root inst) (DIST inst) (path http))];
          deny = [Respond (RespondError (Msg ''Access denied'') 403)]
      in case pmatch (path http) of
           Some (name, file) \<Rightarrow>
             fst (catch_p
               (then_p
                  (request_checkPermission inst http ''package'' (package_options name))
                  (\<lambda>_. (fst (catch_p
                               (then_p (checkSession inst http) (\<lambda>_. (serve, Resolved ())))
                               (\<lambda>e. (deny, Resolved ()))),
                        Resolved ())))
               (\<lambda>e. (deny, Resolved ())))
         | None \<Rightarrow> serve)"

text \<open>
  \<open>request\<close>: what the server does with one request. The chain on \<open>initSession\<close>
  has no \<open>catch\<close>: unless the session initialisation resolves, nothing follows.
\<close>

definition request :: "('d, 'r) server_instance \<Rightarrow> 'd http \<Rightarrow> ('d, 'r) event list" where
  "request inst http =
     fst (then_p (initSession inst http)
       (\<lambda>_. (if request_method http = ''GET'' then
                (if isfs http then request_vfsCall inst http
                 else request_staticResponse inst http)
              else if isfs http then request_vfsCall inst http
              else if api_is_function inst (endpoint http) then request_apiCall inst http
              else [Respond (RespondJson (Some ''No such API method'') NoResult (Some 500))],
              Resolved ())))"

section \<open>The virtual path resolver\<close>

text \<open>The first \<open>://\<close> of a string: what stands before it and what follows it.\<close>

fun split_scheme :: "string \<Rightarrow> (string \<times> string) option" where
  "split_scheme [] = None"
| "split_scheme (c # cs) =
     (if prefix ''://'' (c # cs) then Some ([], drop 3 (c # cs))
      else map_option (\<lambda>(scheme, rest). (c # scheme, rest)) (split_scheme cs))"

text \<open>
  Modelled from the spec: \<open>parseVirtualPath\<close> of \<open>lib/vfs.js\<close>, which is not among
  the sources. The path is split on the first \<open>://\<close>; without a separator the protocol
  is the configured default scheme; an unknown scheme and a disabled mount are errors.
  Only the protocol of the result is kept, the one part the mount check reads. The
  request data is the path string itself.
\<close>

definition parseVirtualPath ::
  "string \<Rightarrow> (string \<rightharpoonup> mount) \<Rightarrow> string vfs_args option \<Rightarrow> string http \<Rightarrow> err + string" where
  "parseVirtualPath default_scheme mounts args http =
     (case args of
        None \<Rightarrow> Inl (TypeError ''Cannot read property of undefined'')
      | Some a \<Rightarrow>
          let query = (case a of RequestData p \<Rightarrow> p | PathOnly p \<Rightarrow> p);
              protocol = (case split_scheme query of
                            Some (scheme, rest) \<Rightarrow> scheme
                          | None \<Rightarrow> default_scheme)
          in case mounts protocol of
               None \<Rightarrow> Inl (Msg ''UnknownProtocol'')
             | Some (MountObject m) \<Rightarrow>
                 if enabled m = JBool False then Inl (Msg ''MountDisabled'') else Inr protocol
             | Some (MountString p) \<Rightarrow> Inr protocol)"

section \<open>A deployment to run the model on\<close>

text \<open>
  A configuration in the shape of the server's \<open>settings.json\<close>: the \<open>application\<close>
  API method asks for the \<open>application\<close> group, the \<open>osjs\<close> mount is read-only, the
  \<open>shared\<close> protocol is restricted to the \<open>staff\<close> group.
\<close>

definition demo_config :: config where
  "demo_config =
     \<lparr> api_groups = [''application'' \<mapsto> JStr ''application''],
       vfs_mounts = [''home'' \<mapsto> MountString ''/vfs/home'',
                     ''osjs'' \<mapsto> MountObject \<lparr> enabled = JBool True, ro = JBool True \<rparr>,
                     ''shared'' \<mapsto> MountString ''/vfs/shared''],
       vfs_groups = [''shared'' \<mapsto> JArr [JStr ''staff'']] \<rparr>"

definition demo_instance :: "(string, jsval) server_instance" where
  "demo_instance =
     \<lparr> AUTH = mysql,
       API = [''application'' \<mapsto> (\<lambda>http d. Resolved (JStr ''test'')),
              ''login'' \<mapsto> (\<lambda>http d. Resolved (JBool True))],
       CONFIG = demo_config,
       DIRS_root = ''/opt/osjs'',
       DIST = ''dist'',
       storage_getBlacklist = (\<lambda>user. Resolved (JArr [JStr ''default/Blocked''])),
       vfs_parseVirtualPath = parseVirtualPath ''home'' (vfs_mounts demo_config),
       vfs_request = (\<lambda>http method args. Resolved (JBool True)) \<rparr>"

text \<open>The same deployment with a storage whose blacklist query fails.\<close>

definition broken_storage_instance :: "(string, jsval) server_instance" where
  "broken_storage_instance =
     demo_instance \<lparr> storage_getBlacklist := (\<lambda>user. Rejected (Msg ''ECONNREFUSED'')) \<rparr>"

text \<open>Callers: no session, a member of \<open>fs\<close> only, an administrator.\<close>

definition anonymous :: session where
  "anonymous = \<lparr> username = JUndefined, groups = NoGroups \<rparr>"

definition alice :: session where
  "alice = \<lparr> username = JStr ''alice'', groups = Json (JArr [JStr ''fs'']) \<rparr>"

definition root_user :: session where
  "root_user = \<lparr> username = JStr ''root'', groups = Json (JArr [JStr ''admin'']) \<rparr>"

definition fs_request :: "string \<Rightarrow> string \<Rightarrow> string \<Rightarrow> session \<Rightarrow> string http" where
  "fs_request verb ep p sess =
     \<lparr> request_method = verb, isfs = True, isapi = False, endpoint = ep,
       path = ''/FS/'' @ ep, data = p, session = sess \<rparr>"

definition api_request :: "string \<Rightarrow> string \<Rightarrow> session \<Rightarrow> string http" where
  "api_request ep d sess =
     \<lparr> request_method = ''POST'', isfs = False, isapi = True, endpoint = ep,
       path = ''/API/'' @ ep, data = d, session = sess \<rparr>"

definition static_request :: "string \<Rightarrow> session \<Rightarrow> string http" where
  "static_request p sess =
     \<lparr> request_method = ''GET'', isfs = False, isapi = False, endpoint = [],
       path = p, data = [], session = sess \<rparr>"

section \<open>Reading a trace\<close>

text \<open>The checks that ran, in order, each with whether it passed.\<close>

fun checks_of :: "('d, 'r) event list \<Rightarrow> (stage \<times> bool) list" where
  "checks_of [] = []"
| "checks_of (Check s ok # es) = (s, ok) # checks_of es"
| "checks_of (ev # es) = checks_of es"

definition stage_order :: "stage list" where
  "stage_order = [SessionCheck, ApiCheck, MountCheck, PackageCheck]"

text \<open>A call into the storage, the VFS layer or an API method handler.\<close>

fun backend_call :: "('d, 'r) event \<Rightarrow> bool" where
  "backend_call (GetBlacklist user) = True"
| "backend_call (VfsRequest m a) = True"
| "backend_call (ApiCall k d) = True"
| "backend_call ev = False"


fun is_file :: "'r response \<Rightarrow> bool" where
  "is_file (RespondFile root dist p) = True"
| "is_file r = False"

text \<open>
  The first test of the mount check, on its own: the mount of the protocol is an
  object that is disabled, or is read-only while the operation is a writing one.
\<close>

definition mount_blocks :: "config \<Rightarrow> string \<Rightarrow> string option \<Rightarrow> bool" where
  "mount_blocks cfg protocol meth =
     (case vfs_mounts cfg protocol of
        Some (MountObject m) \<Rightarrow>
          enabled m = JBool False \<or>
          (ro m = JBool True \<and>
           (case meth of Some x \<Rightarrow> x \<in> set writeableMap | None \<Rightarrow> False))
      | _ \<Rightarrow> False)"



text \<open>
  A read on the \<open>shared\<close> protocol, which the configuration restricts to the
  \<open>staff\<close> group, by a caller whose only group is \<open>fs\<close>.
\<close>

definition shared_read :: "string http" where
  "shared_read = fs_request ''POST'' ''read'' ''shared:///plan.txt'' alice"

definition shared_read_options :: "string options" where
  "shared_read_options = fs_options ''read'' (RequestData ''shared:///plan.txt'')"

text \<open>A file of the package \<open>default/Settings\<close>, asked for by a logged-in caller.\<close>

definition settings_file :: "string http" where
  "settings_file = static_request ''/packages/default/Settings/main.js'' alice"

text \<open>
  Requests without a session: a write, a file of a package, and a call of the API
  method name \<open>toString\<close>, which no module registers.
\<close>

definition anonymous_write :: "string http" where
  "anonymous_write = fs_request ''POST'' ''write'' ''home:///notes.txt'' anonymous"


definition toString_call :: "string http" where
  "toString_call = api_request ''toString'' [] anonymous"

text \<open>A read through the \<open>get/\<close> route, and a file of the blacklisted package.\<close>

definition alice_get :: "string http" where
  "alice_get = fs_request ''GET'' ''get/home:///notes.txt'' [] alice"





text \<open>A value that is an Array with at least one element.\<close>

fun nonempty_Array :: "jsval \<Rightarrow> bool" where
  "nonempty_Array (JArr (x # xs)) = True"
| "nonempty_Array v = False"

section \<open>Group membership\<close>

lemma hasGroup_request_object: "hasGroup sess JObj all = Inr True"
  by (simp add: hasGroup_def)

lemma admin_found: "JStr ''admin'' \<in> set gs \<Longrightarrow> indexOf_found (JArr gs) (JStr ''admin'')"
  by (auto simp: list_ex_iff intro!: bexI[of _ "JStr ''admin''"])

lemma hasGroup_admin:
  assumes "groups s = Json (JArr gs)" and "JStr ''admin'' \<in> set gs"
  shows "hasGroup (Some s) groupList all = Inr True"
  using assms admin_found[OF assms(2)]
  by (cases groupList) (auto simp: hasGroup_def Let_def)

text \<open>
  C9. \<open>hasGroup\<close> permits whenever the required group list is not a non-empty Array,
  whatever the session holds; and when the session's stored groups are absent or are
  not valid JSON the caller has no groups: every non-empty required list is refused,
  whether all or some of its groups are asked for.
\<close>

theorem hasGroup_open_list_and_missing_groups:
  "(\<not> nonempty_Array groupList \<longrightarrow> hasGroup sess groupList all = Inr True)
   \<and> ((groups s = NoGroups \<or> groups s = BadJson) \<and> nonempty_Array (JArr gl)
        \<longrightarrow> hasGroup (Some s) (JArr gl) all = Inr False)"
proof (intro conjI impI)
  assume "\<not> nonempty_Array groupList"
  then show "hasGroup sess groupList all = Inr True"
    by (cases groupList rule: nonempty_Array.cases) (simp_all add: hasGroup_def)
next
  assume a: "(groups s = NoGroups \<or> groups s = BadJson) \<and> nonempty_Array (JArr gl)"
  then obtain g gs where gl: "gl = g # gs" by (cases gl) auto
  from a show "hasGroup (Some s) (JArr gl) all = Inr False"
    by (auto simp: hasGroup_def gl Let_def list_ex_iff)
qed

theorem hasGroup_open_list_and_missing_groups_witness:
  "hasGroup (Some alice) (JStr ''staff'') JUndefined = Inr True
   \<and> hasGroup (Some alice) (JArr []) JUndefined = Inr True
   \<and> groups anonymous = NoGroups
   \<and> hasGroup (Some anonymous) (JArr [JStr ''fs'']) (JBool False) = Inr False"
  using hasGroup_open_list_and_missing_groups
          [of "JStr ''staff''" "Some alice" JUndefined anonymous "[JStr ''fs'']"]
        hasGroup_open_list_and_missing_groups
          [of "JArr []" "Some alice" JUndefined anonymous "[JStr ''fs'']", THEN conjunct1]
        hasGroup_open_list_and_missing_groups
          [of JNull None "JBool False" anonymous "[JStr ''fs'']", THEN conjunct2]
  by (simp add: anonymous_def)

section \<open>The order of the checks\<close>

lemma checks_of_append: "checks_of (xs @ ys) = checks_of xs @ checks_of ys"
  by (induction xs rule: checks_of.induct) simp_all

lemma checks_of_rejectResponse: "checks_of (rejectResponse http e) = []"
  by (simp add: rejectResponse_def)

lemma checkApi_shape:
  "\<exists>ok r. checkApiPermission inst http type options = ([Check ApiCheck ok], r)
      \<and> (ok \<longleftrightarrow> r = Resolved ()) \<and> (\<not> ok \<longrightarrow> (\<exists>e. r = Rejected e))"
  by (simp add: checkApiPermission_def Let_def split: sum.splits bool.splits)

lemma checkMount_shape:
  "\<exists>ok r. checkMountPermission inst http type options = ([Check MountCheck ok], r)
      \<and> (ok \<longleftrightarrow> r = Resolved ()) \<and> (\<not> ok \<longrightarrow> (\<exists>e. r = Rejected e))"
  by (simp add: checkMountPermission_def split: sum.splits bool.splits)

lemma checkPackage_shape:
  "\<exists>ok r rest. checkPackagePermission inst http type options = (Check PackageCheck ok # rest, r)
      \<and> checks_of rest = [] \<and> (ok \<longleftrightarrow> r = Resolved ())"
  by (simp add: checkPackagePermission_def Let_def split: outcome.splits)

lemma checkPermission_cases:
  fixes inst :: "('d, 'r) server_instance"
  assumes r: "r = checkPermission inst http type options"
  shows "(checks_of (fst r) = [] \<and>
            (snd r = Resolved () \<longrightarrow>
               (\<exists>g. auth_checkPermission (AUTH inst) http type options = Resolved g
                    \<and> g \<noteq> JUndefined \<and> \<not> truthy g)))
       \<or> (checks_of (fst r) = [(ApiCheck, False)] \<and> (\<exists>e. snd r = Rejected e))
       \<or> (checks_of (fst r) = [(ApiCheck, True), (MountCheck, False)] \<and> (\<exists>e. snd r = Rejected e))
       \<or> (checks_of (fst r) = [(ApiCheck, True), (MountCheck, True), (PackageCheck, False)]
            \<and> snd r \<noteq> Resolved ())
       \<or> (checks_of (fst r) = [(ApiCheck, True), (MountCheck, True), (PackageCheck, True)]
            \<and> snd r = Resolved ())"
proof -
  obtain ok1 r1 where s1: "checkApiPermission inst http type options = ([Check ApiCheck ok1], r1)"
    "ok1 \<longleftrightarrow> r1 = Resolved ()" "\<not> ok1 \<longrightarrow> (\<exists>e. r1 = Rejected e)"
    using checkApi_shape[of inst http type options] by blast
  obtain ok2 r2 where s2: "checkMountPermission inst http type options = ([Check MountCheck ok2], r2)"
    "ok2 \<longleftrightarrow> r2 = Resolved ()" "\<not> ok2 \<longrightarrow> (\<exists>e. r2 = Rejected e)"
    using checkMount_shape[of inst http type options] by blast
  obtain ok3 r3 rest where s3:
    "checkPackagePermission inst http type options = (Check PackageCheck ok3 # rest, r3)"
    "checks_of rest = []" "ok3 \<longleftrightarrow> r3 = Resolved ()"
    using checkPackage_shape[of inst http type options] by blast
  show ?thesis
  proof (cases "auth_checkPermission (AUTH inst) http type options")
    case (Resolved g)
    show ?thesis
    proof (cases "g = JUndefined \<or> truthy g")
      case False
      with Resolved show ?thesis by (simp add: r checkPermission_def then_p_def)
    next
      case True
      then have t: "truthy (if g = JUndefined then JBool True else g)" by auto
      have eq: "r = then_p ([Check ApiCheck ok1], r1)
                     (\<lambda>_. then_p ([Check MountCheck ok2], r2) (\<lambda>_. (Check PackageCheck ok3 # rest, r3)))"
        using Resolved t by (simp add: r checkPermission_def then_p_def s1 s2 s3)
      show ?thesis
      proof (cases ok1)
        case False
        with s1 eq show ?thesis by (auto simp: then_p_def)
      next
        case ok1: True
        show ?thesis
        proof (cases ok2)
          case False
          with ok1 s1 s2 eq show ?thesis by (auto simp: then_p_def)
        next
          case ok2: True
          with ok1 s1 s2 s3 eq show ?thesis by (cases ok3) (auto simp: then_p_def)
        qed
      qed
    qed
  next
    case (Rejected e)
    then show ?thesis by (simp add: r checkPermission_def then_p_def)
  next
    case Pending
    then show ?thesis by (simp add: r checkPermission_def then_p_def)
  qed
qed

lemma request_checkPermission_cases:
  fixes inst :: "('d, 'r) server_instance"
  assumes r: "r = request_checkPermission inst http type options"
  shows "(checks_of (fst r) = [] \<and> snd r = Resolved ()
            \<and> type = ''api'' \<and> opt_method options = Some ''login'')
       \<or> (checks_of (fst r) = [(SessionCheck, False)] \<and> snd r = Pending)
       \<or> (checks_of (fst r) = [(SessionCheck, True)] \<and>
            (snd r = Pending \<or> snd r = Resolved () \<and>
               (\<exists>g. auth_checkPermission (AUTH inst) http type options = Resolved g
                    \<and> g \<noteq> JUndefined \<and> \<not> truthy g)))
       \<or> (checks_of (fst r) = [(SessionCheck, True), (ApiCheck, False)] \<and> snd r = Pending)
       \<or> (checks_of (fst r) = [(SessionCheck, True), (ApiCheck, True), (MountCheck, False)]
            \<and> snd r = Pending)
       \<or> (checks_of (fst r) =
             [(SessionCheck, True), (ApiCheck, True), (MountCheck, True), (PackageCheck, False)]
            \<and> snd r = Pending)
       \<or> (checks_of (fst r) =
             [(SessionCheck, True), (ApiCheck, True), (MountCheck, True), (PackageCheck, True)]
            \<and> snd r = Resolved ())"
proof (cases "type = ''api'' \<and> opt_method options = Some ''login''")
  case True
  then show ?thesis by (simp add: r request_checkPermission_def then_p_def catch_p_def)
next
  case skip: False
  show ?thesis
  proof (cases "auth_checkSession (AUTH inst) http")
    case (Resolved u)
    obtain es q where q: "checkPermission inst http type options = (es, q)"
      by (cases "checkPermission inst http type options")
    have eq: "r = (Check SessionCheck True # es @ (case q of Rejected e \<Rightarrow> rejectResponse http e | _ \<Rightarrow> []),
                   case q of Resolved v \<Rightarrow> Resolved () | _ \<Rightarrow> Pending)"
      using skip Resolved q
      by (auto simp: r request_checkPermission_def then_p_def catch_p_def checkSession_def Let_def
               split: outcome.splits)
    from checkPermission_cases[of "(es, q)" inst http type options] q
    show ?thesis
      by (cases q) (auto simp: eq checks_of_append checks_of_rejectResponse)
  next
    case (Rejected e)
    with skip show ?thesis
      by (auto simp: r request_checkPermission_def then_p_def catch_p_def checkSession_def Let_def
                     rejectResponse_def)
  next
    case Pending
    with skip show ?thesis
      by (auto simp: r request_checkPermission_def then_p_def catch_p_def checkSession_def Let_def)
  qed
qed

text \<open>
  C2. In the authorization pipeline the checks that run are an initial part of the
  fixed order session, API group, mount, package; every check before the last one
  that ran has passed, so a failing check is the last to run; once a check has failed
  the pipeline does not resolve (the wrapper has answered and its promise stays
  unsettled), so nothing chained on it runs. When the pipeline resolves, either it
  was the login call (no check runs), or the authenticator waived the group checks,
  or all four checks ran, in order, and passed.
\<close>

theorem checks_run_in_fixed_order:
  fixes inst :: "('d, 'r) server_instance"
  shows "prefix (map fst (checks_of (fst (request_checkPermission inst http type options)))) stage_order
     \<and> (\<forall>c \<in> set (butlast (checks_of (fst (request_checkPermission inst http type options)))). snd c)
     \<and> ((\<exists>c \<in> set (checks_of (fst (request_checkPermission inst http type options))). \<not> snd c)
          \<longrightarrow> snd (request_checkPermission inst http type options) = Pending)
     \<and> (snd (request_checkPermission inst http type options) = Resolved ()
          \<longrightarrow> (type = ''api'' \<and> opt_method options = Some ''login'')
            \<or> (\<exists>g. auth_checkPermission (AUTH inst) http type options = Resolved g
                    \<and> g \<noteq> JUndefined \<and> \<not> truthy g)
            \<or> checks_of (fst (request_checkPermission inst http type options))
                 = map (\<lambda>s. (s, True)) stage_order)"
  using request_checkPermission_cases[OF refl, of inst http type options]
  by (elim disjE conjE) (simp_all add: stage_order_def)

lemma readonly_write_eval:
  "request_checkPermission demo_instance (fs_request ''POST'' ''write'' ''osjs:///etc'' alice) ''fs''
       (fs_options ''write'' (RequestData ''osjs:///etc''))
     = ([Check SessionCheck True, Check ApiCheck True, Check MountCheck False,
         Respond (RespondJson (Some ''Access Denied!'') ResultFalse (Some 403))], Pending)"
  by code_simp

theorem checks_run_in_fixed_order_witness:
  "checks_of (fst (request_checkPermission demo_instance
       (fs_request ''POST'' ''write'' ''osjs:///etc'' alice) ''fs''
       (fs_options ''write'' (RequestData ''osjs:///etc''))))
     = [(SessionCheck, True), (ApiCheck, True), (MountCheck, False)]
   \<and> snd (request_checkPermission demo_instance
       (fs_request ''POST'' ''write'' ''osjs:///etc'' alice) ''fs''
       (fs_options ''write'' (RequestData ''osjs:///etc'')))
     = Pending"
  using checks_run_in_fixed_order [of demo_instance
       "fs_request ''POST'' ''write'' ''osjs:///etc'' alice" "''fs''"
       "fs_options ''write'' (RequestData ''osjs:///etc'')"]
  by (simp add: readonly_write_eval)

section \<open>Read-only mounts\<close>

text \<open>What the mount check computes: the group test in it never refuses.\<close>

lemma checkMount_check_eq:
  "checkMount_check inst http options =
     (case vfs_parseVirtualPath inst (opt_args options) http of
        Inl e \<Rightarrow> Inl e
      | Inr protocol \<Rightarrow> Inr (\<not> mount_blocks (CONFIG inst) protocol (opt_method options)))"
  by (simp add: checkMount_check_def mount_blocks_def Let_def hasGroup_request_object
           split: sum.splits)

lemma checkPermission_asked:
  assumes "auth_checkPermission (AUTH inst) http type options = Resolved g"
    and "g = JUndefined \<or> truthy g"
  shows "checkPermission inst http type options =
           then_p (checkApiPermission inst http type options)
             (\<lambda>_. then_p (checkMountPermission inst http type options)
                (\<lambda>_. checkPackagePermission inst http type options))"
  using assms by (auto simp: checkPermission_def then_p_def)


lemma request_checkPermission_snd:
  assumes "\<not> (type = ''api'' \<and> opt_method options = Some ''login'')"
  shows "snd (request_checkPermission inst http type options) =
           (if auth_checkSession (AUTH inst) http = Resolved ()
               \<and> snd (checkPermission inst http type options) = Resolved ()
            then Resolved () else Pending)"
  using assms
  by (cases "auth_checkSession (AUTH inst) http"; cases "snd (checkPermission inst http type options)")
     (auto simp: request_checkPermission_def then_p_def catch_p_def checkSession_def Let_def
                 rejectResponse_def)








section \<open>The permission wrapper of the dispatcher\<close>

lemma request_checkPermission_eq:
  assumes "\<not> (type = ''api'' \<and> opt_method options = Some ''login'')"
  shows "request_checkPermission inst http type options =
    (case auth_checkSession (AUTH inst) http of
       Resolved u \<Rightarrow>
         (Check SessionCheck True # fst (checkPermission inst http type options)
            @ (case snd (checkPermission inst http type options) of
                 Rejected e \<Rightarrow> rejectResponse http e | _ \<Rightarrow> []),
          case snd (checkPermission inst http type options) of
            Resolved v \<Rightarrow> Resolved () | _ \<Rightarrow> Pending)
     | Rejected e \<Rightarrow> (Check SessionCheck False # rejectResponse http e, Pending)
     | Pending \<Rightarrow> ([Check SessionCheck False], Pending))"
  using assms
  by (cases "auth_checkSession (AUTH inst) http"; cases "snd (checkPermission inst http type options)")
     (auto simp: request_checkPermission_def then_p_def catch_p_def checkSession_def Let_def)

lemma checkPermission_events:
  assumes "ev \<in> set (fst (checkPermission inst http type options))"
  shows "(\<exists>s b. ev = Check s b) \<or> ev = GetBlacklist (username (session http))"
proof -
  obtain ok1 r1 where s1: "checkApiPermission inst http type options = ([Check ApiCheck ok1], r1)"
    using checkApi_shape[of inst http type options] by blast
  obtain ok2 r2 where s2: "checkMountPermission inst http type options = ([Check MountCheck ok2], r2)"
    using checkMount_shape[of inst http type options] by blast
  have p: "ev \<in> set (fst (checkPackagePermission inst http type options))
           \<Longrightarrow> (\<exists>s b. ev = Check s b) \<or> ev = GetBlacklist (username (session http))"
    by (auto simp: checkPackagePermission_def Let_def split: if_splits outcome.splits)
  from assms show ?thesis
    using p
    by (auto simp: checkPermission_def then_p_def s1 s2 split: outcome.splits if_splits)
qed

section \<open>Administrators\<close>

text \<open>
  C5. For a caller whose session groups are an array that holds \<open>'admin'\<close>: the API
  group check resolves for every request kind and every method; the mount check
  resolves whenever the path parses and the mount itself does not block the operation
  (disabled, or read-only for a write), whatever group the protocol is restricted to;
  and \<open>hasGroup\<close> answers true for every group list.
\<close>

theorem admin_passes_group_checks:
  assumes "groups (session http) = Json (JArr gs)" and "JStr ''admin'' \<in> set gs"
  shows "snd (checkApiPermission inst http type options) = Resolved ()
    \<and> (vfs_parseVirtualPath inst (opt_args options) http = Inr protocol
         \<and> \<not> mount_blocks (CONFIG inst) protocol (opt_method options)
        \<longrightarrow> snd (checkMountPermission inst http type options) = Resolved ())
    \<and> (\<forall>groupList all. hasGroup (Some (session http)) groupList all = Inr True)"
  using assms
  by (auto simp: checkApiPermission_def Let_def hasGroup_admin checkMountPermission_def
                 checkMount_check_eq)

lemma root_shared_read_parsed:
  "vfs_parseVirtualPath demo_instance (opt_args shared_read_options)
     (fs_request ''POST'' ''read'' ''shared:///plan.txt'' root_user) = Inr ''shared''"
  by code_simp

lemma shared_not_blocked:
  "\<not> mount_blocks (CONFIG demo_instance) ''shared'' (opt_method shared_read_options)"
  by code_simp

lemma shared_group:
  "obj_get (vfs_groups (CONFIG demo_instance)) ''shared'' = JArr [JStr ''staff'']"
  by code_simp

theorem admin_passes_group_checks_witness:
  "groups (session (fs_request ''POST'' ''read'' ''shared:///plan.txt'' root_user))
     = Json (JArr [JStr ''admin''])
   \<and> obj_get (vfs_groups (CONFIG demo_instance)) ''shared'' = JArr [JStr ''staff'']
   \<and> snd (checkApiPermission demo_instance
            (fs_request ''POST'' ''read'' ''shared:///plan.txt'' root_user) ''fs''
            shared_read_options) = Resolved ()
   \<and> snd (checkMountPermission demo_instance
            (fs_request ''POST'' ''read'' ''shared:///plan.txt'' root_user) ''fs''
            shared_read_options) = Resolved ()
   \<and> hasGroup (Some root_user) (JArr [JStr ''staff'']) JUndefined = Inr True"
  using admin_passes_group_checks
          [of "fs_request ''POST'' ''read'' ''shared:///plan.txt'' root_user" "[JStr ''admin'']"
              demo_instance "''fs''" shared_read_options "''shared''"]
        root_shared_read_parsed shared_not_blocked shared_group
  by (simp add: fs_request_def root_user_def)

section \<open>The package blacklist\<close>

text \<open>
  C10. When the storage's blacklist query is rejected, the package check rejects with
  \<open>'Access Denied!'\<close>, and so does the whole permission check of a package request
  (whose options carry no method) under an authenticator that asks for the group
  checks: the failure of the storage denies, it never permits.
\<close>

theorem package_storage_failure_denies:
  assumes "storage_getBlacklist inst (username (session http)) = Rejected e"
  shows "snd (checkPackagePermission inst http ''package'' options) = Rejected (Msg ''Access Denied!'')
    \<and> (auth_checkPermission (AUTH inst) http ''package'' options = Resolved g
         \<and> (g = JUndefined \<or> truthy g) \<and> opt_method options = None
        \<longrightarrow> snd (checkPermission inst http ''package'' options) = Rejected (Msg ''Access Denied!''))"
  using assms
  by (auto simp: checkPackagePermission_def Let_def checkPermission_asked then_p_def
                 checkApiPermission_def hasGroup_def checkMountPermission_def)

lemma broken_storage_rejects:
  "storage_getBlacklist broken_storage_instance (username (session settings_file))
     = Rejected (Msg ''ECONNREFUSED'')"
  by code_simp

lemma broken_storage_auth:
  "auth_checkPermission (AUTH broken_storage_instance) settings_file ''package''
     (package_options ''default/Settings'') = Resolved (JBool True)"
  by code_simp

theorem package_storage_failure_denies_witness:
  "storage_getBlacklist broken_storage_instance (username (session settings_file))
     = Rejected (Msg ''ECONNREFUSED'')
   \<and> snd (checkPackagePermission broken_storage_instance settings_file ''package''
            (package_options ''default/Settings'')) = Rejected (Msg ''Access Denied!'')
   \<and> snd (checkPermission broken_storage_instance settings_file ''package''
            (package_options ''default/Settings'')) = Rejected (Msg ''Access Denied!'')"
  using package_storage_failure_denies
          [of broken_storage_instance settings_file "Msg ''ECONNREFUSED''"
              "package_options ''default/Settings''" "JBool True", OF broken_storage_rejects]
        broken_storage_rejects broken_storage_auth
  by (simp add: package_options_def)

section \<open>The group restriction of a protocol\<close>

text \<open>
  C4. The mount check does not enforce the group restriction of a protocol. The
  \<open>shared\<close> protocol is restricted to \<open>staff\<close>, and the caller, whose only group is
  \<open>fs\<close>, does not pass \<open>hasGroup\<close> for that list; yet the permission check resolves
  and the read reaches the VFS layer.
\<close>

theorem protocol_group_restriction_not_enforced:
  "obj_get (vfs_groups (CONFIG demo_instance)) ''shared'' = JArr [JStr ''staff'']
   \<and> groups (session shared_read) = Json (JArr [JStr ''fs''])
   \<and> hasGroup (Some (session shared_read)) (JArr [JStr ''staff'']) JUndefined = Inr False
   \<and> snd (checkPermission demo_instance shared_read ''fs'' shared_read_options) = Resolved ()
   \<and> request demo_instance shared_read
       = [Check SessionCheck True, Check ApiCheck True, Check MountCheck True,
          Check PackageCheck True, VfsRequest ''read'' (RequestData ''shared:///plan.txt''),
          Respond (RespondJson None (Result (JBool True)) None)]"
  by code_simp

section \<open>What the dispatcher does\<close>

lemma wrapper_events:
  assumes "ev \<in> set (fst (request_checkPermission inst http type options))"
  shows "(\<exists>s b. ev = Check s b) \<or> ev = GetBlacklist (username (session http))
         \<or> (\<exists>e. ev = Respond (reject_with http e))"
proof (cases "type = ''api'' \<and> opt_method options = Some ''login''")
  case True
  with assms show ?thesis
    by (simp add: request_checkPermission_def then_p_def catch_p_def)
next
  case False
  from assms checkPermission_events[of ev inst http type options] show ?thesis
    unfolding request_checkPermission_eq[OF False]
    by (auto simp: rejectResponse_def split: outcome.splits)
qed

lemma wrapper_outcome:
  "snd (request_checkPermission inst http type options) = Resolved ()
   \<or> snd (request_checkPermission inst http type options) = Pending"
  by (cases "type = ''api'' \<and> opt_method options = Some ''login''")
     (auto simp: request_checkPermission_snd,
      simp add: request_checkPermission_def then_p_def catch_p_def)

lemma no_session_wrapper:
  assumes "auth_checkSession (AUTH inst) http \<noteq> Resolved ()"
    and "\<not> (type = ''api'' \<and> opt_method options = Some ''login'')"
  shows "snd (request_checkPermission inst http type options) = Pending"
    and "\<forall>ev \<in> set (fst (request_checkPermission inst http type options)). \<not> backend_call ev"
  using assms(1)
  unfolding request_checkPermission_eq[OF assms(2)]
  by (cases "auth_checkSession (AUTH inst) http"; simp add: rejectResponse_def)+

lemma guarded_eq:
  assumes "snd p = Resolved () \<or> snd p = Pending"
  shows "fst (catch_p (then_p p (\<lambda>_. (es, Resolved ()))) h)
           = fst p @ (if snd p = Resolved () then es else [])"
  using assms by (auto simp: then_p_def catch_p_def)

lemma respond_eq:
  "fst (catch_p (then_p (es, out) (\<lambda>result. (resolveResponse result, Resolved ())))
          (\<lambda>e. (rejectResponse http e, Resolved ())))
     = es @ (case out of
               Resolved v \<Rightarrow> resolveResponse v
             | Rejected e \<Rightarrow> rejectResponse http e
             | Pending \<Rightarrow> [])"
  by (cases out) (simp_all add: then_p_def catch_p_def)

lemma vfsCall_eq:
  "request_vfsCall inst http =
     (let m = (if prefix ''get/'' (endpoint http) then ''read'' else strip_get (endpoint http));
          a = (if prefix ''get/'' (endpoint http) then PathOnly (strip_get (endpoint http))
               else RequestData (data http));
          r = request_checkPermission inst http ''fs'' (fs_options m a)
      in fst r @
         (if snd r = Resolved () then
            VfsRequest m a #
              (case vfs_request inst http m a of
                 Resolved v \<Rightarrow> resolveResponse v
               | Rejected e \<Rightarrow> rejectResponse http e
               | Pending \<Rightarrow> [])
          else []))"
  unfolding request_vfsCall_def Let_def respond_eq
  by (rule trans[OF guarded_eq[OF wrapper_outcome]]) simp

lemma apiCall_eq:
  "request_apiCall inst http =
     (let r = request_checkPermission inst http ''api'' (api_options (endpoint http))
      in fst r @
         (if snd r = Resolved () then
            (case API inst (endpoint http) of
               Some handler \<Rightarrow>
                 ApiCall (endpoint http) (data http) #
                   (case handler http (data http) of
                      Resolved v \<Rightarrow> resolveResponse v
                    | Rejected e \<Rightarrow> rejectResponse http e
                    | Pending \<Rightarrow> [])
             | None \<Rightarrow> rejectResponse http
                 (TypeError ''instance.API[http.endpoint](...).then is not a function''))
          else []))"
proof (cases "API inst (endpoint http)")
  case None
  from wrapper_outcome[of inst http "''api''" "api_options (endpoint http)"]
  show ?thesis
    by (auto simp: request_apiCall_def None Let_def then_p_def catch_p_def)
next
  case (Some handler)
  show ?thesis
    unfolding request_apiCall_def Let_def Some option.case respond_eq
    by (rule trans[OF guarded_eq[OF wrapper_outcome]]) simp
qed

lemma staticResponse_eq:
  "request_staticResponse inst http =
     (case pmatch (path http) of
        Some (name, f) \<Rightarrow>
          (let r = request_checkPermission inst http ''package'' (package_options name)
           in fst r @
              (if snd r = Resolved () then
                 (case auth_checkSession (AUTH inst) http of
                    Resolved u \<Rightarrow> [Check SessionCheck True,
                                   Respond (RespondFile (DIRS_root inst) (DIST inst) (path http))]
                  | Rejected e \<Rightarrow> [Check SessionCheck False,
                                    Respond (RespondError (Msg ''Access denied'') 403)]
                  | Pending \<Rightarrow> [Check SessionCheck False])
               else []))
      | None \<Rightarrow> [Respond (RespondFile (DIRS_root inst) (DIST inst) (path http))])"
proof (cases "pmatch (path http)")
  case None
  then show ?thesis by (simp add: request_staticResponse_def)
next
  case (Some nf)
  obtain name f where nf: "nf = (name, f)" by (cases nf)
  have inner: "fst (catch_p (then_p (checkSession inst http) (\<lambda>_. (sv, Resolved ())))
                      (\<lambda>e. (dn, Resolved ())))
      = (case auth_checkSession (AUTH inst) http of
           Resolved u \<Rightarrow> Check SessionCheck True # sv
         | Rejected e \<Rightarrow> Check SessionCheck False # dn
         | Pending \<Rightarrow> [Check SessionCheck False])" for sv dn :: "('a, 'b) event list"
    by (cases "auth_checkSession (AUTH inst) http")
       (simp_all add: checkSession_def then_p_def catch_p_def)
  show ?thesis
    unfolding request_staticResponse_def Let_def Some nf option.case prod.case inner
    by (rule trans[OF guarded_eq[OF wrapper_outcome]]) (simp split: outcome.splits)
qed

lemma wrapper_not_backend_vfs_api:
  assumes "ev \<in> set (fst (request_checkPermission inst http type options))"
  shows "\<forall>m a. ev \<noteq> VfsRequest m a" and "\<forall>k d. ev \<noteq> ApiCall k d"
    and "\<forall>r. ev = Respond r \<longrightarrow> \<not> is_file r"
  using wrapper_events[OF assms] by (auto simp: reject_with_def split: if_splits)

section \<open>Authorization precedes side effects\<close>

text \<open>
  C1. When the authenticator's session check does not resolve (it rejects, or never
  answers) and the request is not the API call \<open>login\<close>, handling the request calls
  neither the storage, nor the VFS layer, nor an API method handler.
\<close>

theorem no_session_no_backend_call:
  assumes "auth_checkSession (AUTH inst) http \<noteq> Resolved ()"
    and "\<not> (request_method http \<noteq> ''GET'' \<and> \<not> isfs http \<and> endpoint http = ''login'')"
  shows "\<forall>ev \<in> set (request inst http). \<not> backend_call ev"
proof -
  have fs: "\<forall>ev \<in> set (request_vfsCall inst http). \<not> backend_call ev"
    using no_session_wrapper[OF assms(1), of "''fs''"]
    by (simp add: vfsCall_eq Let_def)
  have st: "\<forall>ev \<in> set (request_staticResponse inst http). \<not> backend_call ev"
    using no_session_wrapper[OF assms(1), of "''package''"]
    by (auto simp: staticResponse_eq Let_def split: option.splits)
  have api: "endpoint http \<noteq> ''login'' \<Longrightarrow> \<forall>ev \<in> set (request_apiCall inst http). \<not> backend_call ev"
    using no_session_wrapper[OF assms(1), of "''api''" "api_options (endpoint http)"]
    by (simp add: apiCall_eq Let_def api_options_def)
  show ?thesis
    using fs st api assms(2)
    by (cases "auth_initSession (AUTH inst) http")
       (auto simp: request_def then_p_def initSession_def)
qed

lemma anonymous_write_session:
  "auth_checkSession (AUTH demo_instance) anonymous_write
     = Rejected (Msg ''You have no OS.js Session, please log in!'')"
  by code_simp

lemma anonymous_write_not_login:
  "\<not> (request_method anonymous_write \<noteq> ''GET'' \<and> \<not> isfs anonymous_write
      \<and> endpoint anonymous_write = ''login'')"
  by code_simp

theorem no_session_no_backend_call_witness:
  "auth_checkSession (AUTH demo_instance) anonymous_write
     = Rejected (Msg ''You have no OS.js Session, please log in!'')
   \<and> list_all (\<lambda>ev. \<not> backend_call ev) (request demo_instance anonymous_write)"
  using no_session_no_backend_call [of demo_instance anonymous_write, OF _ anonymous_write_not_login]
        anonymous_write_session
  by (simp add: list_all_iff)

section \<open>The \<open>get/\<close> route\<close>

text \<open>
  C7. For a VFS request whose endpoint is \<open>get/\<close> followed by a rest: every call the
  request makes into the VFS layer is the operation \<open>read\<close> with the path argument
  \<open>{path: rest}\<close>; and that call is made whenever the session initialisation
  resolves and the authorization of this very operation resolves.
\<close>

theorem get_route_reads:
  assumes "isfs http" and "endpoint http = ''get/'' @ rest"
  shows "(\<forall>m a. VfsRequest m a \<in> set (request inst http) \<longrightarrow> m = ''read'' \<and> a = PathOnly rest)
    \<and> ((\<exists>v. auth_initSession (AUTH inst) http = Resolved v)
         \<and> snd (request_checkPermission inst http ''fs'' (fs_options ''read'' (PathOnly rest)))
             = Resolved ()
        \<longrightarrow> VfsRequest ''read'' (PathOnly rest) \<in> set (request inst http))"
proof -
  have p: "prefix ''get/'' (endpoint http)" and s: "strip_get (endpoint http) = rest"
    using assms(2) by (simp_all add: strip_get_def)
  have req: "request inst http =
      (case auth_initSession (AUTH inst) http of
         Resolved v \<Rightarrow> request_vfsCall inst http | _ \<Rightarrow> [])"
    using assms(1)
    by (cases "auth_initSession (AUTH inst) http")
       (auto simp: request_def then_p_def initSession_def)
  have v: "request_vfsCall inst http =
      fst (request_checkPermission inst http ''fs'' (fs_options ''read'' (PathOnly rest))) @
      (if snd (request_checkPermission inst http ''fs'' (fs_options ''read'' (PathOnly rest))) = Resolved ()
       then VfsRequest ''read'' (PathOnly rest) #
              (case vfs_request inst http ''read'' (PathOnly rest) of
                 Resolved v \<Rightarrow> resolveResponse v
               | Rejected e \<Rightarrow> rejectResponse http e
               | Pending \<Rightarrow> [])
       else [])"
    by (simp add: vfsCall_eq Let_def p s)
  show ?thesis
    using wrapper_not_backend_vfs_api(1)[of _ inst http "''fs''" "fs_options ''read'' (PathOnly rest)"]
    by (cases "auth_initSession (AUTH inst) http";
        cases "vfs_request inst http ''read'' (PathOnly rest)")
       (auto simp: req v resolveResponse_def rejectResponse_def)
qed

lemma alice_get_init: "auth_initSession (AUTH demo_instance) alice_get = Resolved (JBool True)"
  by code_simp

lemma alice_get_authorized:
  "snd (request_checkPermission demo_instance alice_get ''fs''
          (fs_options ''read'' (PathOnly ''home:///notes.txt''))) = Resolved ()"
  by code_simp

theorem get_route_reads_witness:
  "isfs alice_get \<and> endpoint alice_get = ''get/'' @ ''home:///notes.txt''
   \<and> VfsRequest ''read'' (PathOnly ''home:///notes.txt'') \<in> set (request demo_instance alice_get)"
  using get_route_reads [of alice_get "''home:///notes.txt''" demo_instance]
        alice_get_init alice_get_authorized
  by (simp add: alice_get_def fs_request_def)

section \<open>Unknown API methods\<close>

text \<open>
  A request that is neither a GET nor a VFS call, whose endpoint is neither a
  registered method nor the name of a function of \<open>Object.prototype\<close>, is answered
  with \<open>{error: 'No such API method'}\<close> and status 500, and nothing else happens.
\<close>

lemma unknown_method_500:
  assumes "request_method http \<noteq> ''GET''" and "\<not> isfs http"
    and "API inst (endpoint http) = None"
    and "endpoint http \<notin> set object_prototype_functions"
    and "auth_initSession (AUTH inst) http = Resolved v"
  shows "request inst http = [Respond (RespondJson (Some ''No such API method'') NoResult (Some 500))]"
  using assms by (simp add: request_def then_p_def initSession_def api_is_function_def)

text \<open>
  C6. The endpoint \<open>toString\<close> names no registered API method, yet
  \<open>typeof instance.API['toString']\<close> is \<open>'function'\<close>: the request is taken for an
  API call, goes through the authorization, and the caller without a session gets
  the session error with status 403, not \<open>No such API method\<close> with status 500.
\<close>

theorem inherited_method_name_is_authorized_not_unknown:
  "request_method toString_call = ''POST'' \<and> \<not> isfs toString_call
   \<and> endpoint toString_call = ''toString''
   \<and> Option.is_none (API demo_instance (endpoint toString_call))
   \<and> request demo_instance toString_call
       = [Check SessionCheck False,
          Respond (RespondJson (Some ''You have no OS.js Session, please log in!'')
                     ResultFalse (Some 403))]"
  by code_simp

section \<open>Files of packages\<close>





text \<open>
  The pattern \<open>/^\/?packages\/(.*\/.*)\/(.*)/\<close> covers the files of packages, whose
  names have two parts (\<open>default/Settings\<close>): \<open>packages/\<close>, after one leading slash
  at most, then a name that holds a slash, a slash, and a file name.
\<close>

lemma pmatch_package_file:
  assumes "CHR ''/'' \<in> set name" and "CHR ''/'' \<notin> set f"
    and "\<forall>c \<in> set (name @ f). c \<noteq> CHR 0x0A \<and> c \<noteq> CHR 0x0D"
  shows "pmatch (''/packages/'' @ name @ ''/'' @ f) = Some (name, f)"
    and "pmatch (''packages/'' @ name @ ''/'' @ f) = Some (name, f)"
proof -
  let ?l = "name @ ''/'' @ f"
  have line: "takeWhile (\<lambda>c. c \<noteq> CHR 0x0A \<and> c \<noteq> CHR 0x0D) ?l = ?l"
    using assms(3) by (auto simp: takeWhile_eq_all_conv)
  have ta: "takeWhile (\<lambda>c. c \<noteq> CHR ''/'') (rev f @ ys) = rev f @ takeWhile (\<lambda>c. c \<noteq> CHR ''/'') ys"
    for ys using assms(2) by (intro takeWhile_append2) auto
  have fl: "rev (takeWhile (\<lambda>c. c \<noteq> CHR ''/'') (rev ?l)) = f"
    by (simp add: ta)
  have nm: "take (length ?l - length f - 1) ?l = name" by simp
  have sl: "CHR ''/'' \<in> set ?l" by simp
  have p1: "(if prefix ''/'' (''/packages/'' @ ?l) then tl (''/packages/'' @ ?l)
             else ''/packages/'' @ ?l) = ''packages/'' @ ?l" by simp
  have p1': "(if prefix ''/'' (''packages/'' @ ?l) then tl (''packages/'' @ ?l)
             else ''packages/'' @ ?l) = ''packages/'' @ ?l" by simp
  have p2: "prefix ''packages/'' (''packages/'' @ ?l)" by simp
  have p3: "drop 9 (''packages/'' @ ?l) = ?l" by simp
  show "pmatch (''/packages/'' @ name @ ''/'' @ f) = Some (name, f)"
    unfolding pmatch_def Let_def p1 p3 line fl nm using sl assms(1) p2 by (simp only: simp_thms if_True)
  show "pmatch (''packages/'' @ name @ ''/'' @ f) = Some (name, f)"
    unfolding pmatch_def Let_def p1' p3 line fl nm using sl assms(1) p2 by (simp only: simp_thms if_True)
qed

text \<open>
  A GET request outside the VFS namespace whose path the pattern does not match is
  an ordinary static file: once the session is initialised it is served, and no
  check runs.
\<close>

lemma unmatched_path_served_unchecked:
  assumes "request_method http = ''GET''" and "\<not> isfs http"
    and "pmatch (path http) = None"
    and "auth_initSession (AUTH inst) http = Resolved v"
  shows "request inst http = [Respond (RespondFile (DIRS_root inst) (DIST inst) (path http))]"
  using assms
  by (simp add: request_def then_p_def initSession_def request_staticResponse_def)





end
